theory Spec2Isabelle
  imports Complex_Main "HOL-Library.AList" "HOL-Library.Word"
begin

section \<open>Python values, dictionaries and exceptions\<close>

text \<open>
  The exceptions the modelled code can raise. A function that can raise returns
  \<open>py_error + 'a\<close>, with \<open>Inl\<close> the exception.
\<close>

datatype py_error =
    KeyError string
  | TypeError
  | AttributeError
  | JSONDecodeError
  | UnicodeDecodeError
  | ClientError string
  | RequestException string
  | OtherException string

text \<open>
  JSON-shaped values: what \<open>json.loads\<close> returns and what the test fixtures build.
  A dictionary is an association list in insertion order, read with \<open>map_of\<close>.
\<close>

datatype json =
    JNull
  | JBool bool
  | JInt int
  | JReal real
  | JStr string
  | JList "json list"
  | JDict "(string \<times> json) list"

type_synonym environ = "string \<rightharpoonup> string"

text \<open>\<open>os.environ[k]\<close>: a missing variable raises \<open>KeyError\<close>.\<close>

definition environ_get :: "environ \<Rightarrow> string \<Rightarrow> py_error + string" where
  "environ_get env k = (case env k of None \<Rightarrow> Inl (KeyError k) | Some v \<Rightarrow> Inr v)"

text \<open>\<open>d[k]\<close> on a JSON-shaped value: only a dictionary can be indexed by a string.\<close>

fun getitem :: "json \<Rightarrow> string \<Rightarrow> py_error + json" where
  "getitem (JDict kvs) k = (case map_of kvs k of None \<Rightarrow> Inl (KeyError k) | Some v \<Rightarrow> Inr v)"
| "getitem _ k = Inl TypeError"

text \<open>\<open>d[k] = v\<close> and \<open>d.update(other)\<close> on an insertion-ordered dictionary.\<close>

definition setitem :: "string \<Rightarrow> 'v \<Rightarrow> (string \<times> 'v) list \<Rightarrow> (string \<times> 'v) list" where
  "setitem k v d = AList.update k v d"

definition dict_update :: "(string \<times> 'v) list \<Rightarrow> (string \<times> 'v) list \<Rightarrow> (string \<times> 'v) list" where
  "dict_update d other = foldl (\<lambda>acc (k, v). setitem k v acc) d other"

definition bind_err :: "py_error + 'a \<Rightarrow> ('a \<Rightarrow> py_error + 'b) \<Rightarrow> py_error + 'b" where
  "bind_err r f = (case r of Inl e \<Rightarrow> Inl e | Inr v \<Rightarrow> f v)"

definition dict_keys :: "(string \<times> 'v) list \<Rightarrow> string set" where
  "dict_keys d = fst ` set d"

section \<open>Orchestrator test fixtures\<close>

subsection \<open>Required API keys\<close>

definition required_api_keys_model_monitor :: "string \<Rightarrow> string option \<Rightarrow> string list" where
  "required_api_keys_model_monitor monitoring_type problem_type =
     (let common_keys =
        [''pipeline_type'',
         ''model_name'',
         ''endpoint_name'',
         ''baseline_data'',
         ''baseline_job_output_location'',
         ''data_capture_location'',
         ''monitoring_output_location'',
         ''schedule_expression'',
         ''monitor_max_runtime_seconds'',
         ''instance_type'',
         ''instance_volume_size'']
      in if monitoring_type \<noteq> ''ModelQuality'' then common_keys
         else
           (let common_model_keys =
              [''baseline_inference_attribute'',
               ''baseline_ground_truth_attribute'',
               ''problem_type'',
               ''monitor_ground_truth_input''];
                common_model_keys' =
              (if problem_type \<in> set [Some ''Regression'', Some ''MulticlassClassification'']
               then common_model_keys @ [''monitor_inference_attribute'']
               else common_model_keys @
                 [''monitor_probability_attribute'',
                  ''probability_threshold_attribute'',
                  ''baseline_probability_attribute''])
            in common_keys @ common_model_keys'))"

definition required_api_byom_realtime_builtin :: "string \<Rightarrow> string list" where
  "required_api_byom_realtime_builtin use_model_registry =
     (let required_keys =
        [''pipeline_type'',
         ''model_name'',
         ''inference_instance'',
         ''data_capture_location'']
      in if use_model_registry = ''Yes''
         then required_keys @ [''model_package_name'']
         else required_keys @
           [''model_framework'',
            ''model_framework_version'',
            ''model_artifact_location''])"

subsection \<open>Environment set up for every test\<close>

text \<open>
  The autouse fixture \<open>mock_env_variables\<close> assigns these variables one after the other
  in \<open>os.environ\<close>; a later assignment to the same name would win.
\<close>

definition mock_env_variables :: "environ \<Rightarrow> environ" where
  "mock_env_variables env = foldl (\<lambda>e (k, v). e(k \<mapsto> v)) env
     [(''BLUEPRINT_BUCKET_URL'', ''testurl''),
      (''NOTIFICATION_EMAIL'', ''test@example.com''),
      (''ASSETS_BUCKET'', ''testassetsbucket''),
      (''BLUEPRINT_BUCKET'', ''testbucket''),
      (''PIPELINE_STACK_NAME'', ''mlops-pipeline''),
      (''CFN_ROLE_ARN'', ''arn:aws:role:region:account:action''),
      (''IS_MULTI_ACCOUNT'', ''False''),
      (''REGION'', ''us-east-1''),
      (''ECR_REPO_ARN'', ''test-ecr-repo''),
      (''DEV_ACCOUNT_ID'', ''dev_account_id''),
      (''STAGING_ACCOUNT_ID'', ''staging_account_id''),
      (''PROD_ACCOUNT_ID'', ''prod_account_id''),
      (''DEV_ORG_ID'', ''dev_org_id''),
      (''STAGING_ORG_ID'', ''staging_org_id''),
      (''PROD_ORG_ID'', ''prod_org_id''),
      (''MODELARTIFACTLOCATION'', ''model.tar.gz''),
      (''INSTANCETYPE'', ''ml.m5.large''),
      (''INFERENCEDATA'', ''inference/data.csv''),
      (''BATCHOUTPUT'', ''bucket/output''),
      (''DATACAPTURE'', ''bucket/datacapture''),
      (''TRAININGDATA'', ''model_monitor/training-dataset-with-header.csv''),
      (''BASELINEOUTPUT'', ''testbucket/model_monitor/baseline_output2''),
      (''SCHEDULEEXP'', ''cron(0 * ? * * *)''),
      (''CUSTOMIMAGE'', ''custom/custom_image.zip''),
      (''TESTFILE'', ''testfile.zip''),
      (''USE_MODEL_REGISTRY'', ''No''),
      (''IS_DELEGATED_ADMIN'', ''No''),
      (''MODEL_PACKAGE_GROUP_NAME'', ''xgboost''),
      (''MODEL_PACKAGE_NAME'', ''arn:aws:sagemaker:*:*:model-package/xgboost/1'')]"

subsection \<open>The BYOM API event\<close>

text \<open>\<open>str(is_multi)\<close> for a boolean flag.\<close>

definition str_bool :: "bool \<Rightarrow> string" where
  "str_bool b = (if b then ''True'' else ''False'')"

text \<open>
  \<open>_api_byom_event(pipeline_type, is_multi, endpint_name_provided)\<close>. The dictionary
  \<open>maping\<close> is built first, so its three environment reads happen for every pipeline
  type; each \<open>os.environ[...]\<close> can raise \<open>KeyError\<close>.
\<close>

definition api_byom_event ::
  "environ \<Rightarrow> string \<Rightarrow> bool \<Rightarrow> bool \<Rightarrow> py_error + (string \<times> json) list" where
  "api_byom_event env pipeline_type is_multi endpint_name_provided =
     bind_err (environ_get env ''INSTANCETYPE'') (\<lambda>instancetype.
     bind_err (environ_get env ''BATCHOUTPUT'') (\<lambda>batchoutput.
     bind_err (environ_get env ''DATACAPTURE'') (\<lambda>datacapture.
     let maping = JDict
       [(''inference_instance'', JDict
           [(''True'', JDict
               [(''dev'', JStr instancetype),
                (''staging'', JStr instancetype),
                (''prod'', JStr instancetype)]),
            (''False'', JStr instancetype)]),
        (''batch_job_output_location'', JDict
           [(''True'', JDict
               [(''dev'', JStr ''bucket/dev_output''),
                (''staging'', JStr ''bucket/staging_output''),
                (''prod'', JStr ''bucket/prod_output'')]),
            (''False'', JStr batchoutput)]),
        (''data_capture_location'', JDict
           [(''True'', JDict
               [(''dev'', JStr ''bucket/dev_datacapture''),
                (''staging'', JStr ''bucket/staging_datacapture''),
                (''prod'', JStr ''bucket/prod_datacapture'')]),
            (''False'', JStr datacapture)]),
        (''endpoint_name'', JDict
           [(''True'', JDict
               [(''dev'', JStr ''dev-endpoint''),
                (''staging'', JStr ''staging-endpoint''),
                (''prod'', JStr ''prod-endpoint'')]),
            (''False'', JStr ''test-endpoint'')])]
     in
     bind_err (environ_get env ''MODELARTIFACTLOCATION'') (\<lambda>modelartifactlocation.
     bind_err (environ_get env ''MODEL_PACKAGE_NAME'') (\<lambda>model_package_name.
     let event0 =
       [(''pipeline_type'', JStr pipeline_type),
        (''model_name'', JStr ''testmodel''),
        (''model_artifact_location'', JStr modelartifactlocation),
        (''model_package_name'', JStr model_package_name)]
     in
     bind_err (bind_err (getitem maping ''inference_instance'') (\<lambda>m. getitem m (str_bool is_multi)))
       (\<lambda>inference_instance.
     let event1 = setitem ''inference_instance'' inference_instance event0 in
     bind_err
       (if pipeline_type \<in> set [''byom_batch_builtin'', ''byom_batch_custom'']
        then
          bind_err (environ_get env ''INFERENCEDATA'') (\<lambda>inferencedata.
          bind_err (bind_err (getitem maping ''batch_job_output_location'')
                      (\<lambda>m. getitem m (str_bool is_multi))) (\<lambda>batch_job_output_location.
          Inr (setitem ''batch_job_output_location'' batch_job_output_location
                 (setitem ''batch_inference_data'' (JStr inferencedata) event1))))
        else Inr event1)
       (\<lambda>event2.
     bind_err
       (if pipeline_type \<in> set [''byom_realtime_builtin'', ''byom_realtime_custom'']
        then
          bind_err (bind_err (getitem maping ''data_capture_location'')
                      (\<lambda>m. getitem m (str_bool is_multi))) (\<lambda>data_capture_location.
          let event2' = setitem ''data_capture_location'' data_capture_location event2 in
          if endpint_name_provided
          then bind_err (bind_err (getitem maping ''endpoint_name'')
                           (\<lambda>m. getitem m (str_bool is_multi))) (\<lambda>endpoint_name.
               Inr (setitem ''endpoint_name'' endpoint_name event2'))
          else Inr event2')
        else Inr event2)
       (\<lambda>event3.
     Inr (if pipeline_type \<in> set [''byom_realtime_builtin'', ''byom_batch_builtin'']
          then setitem ''model_framework_version'' (JStr ''0.90-1'')
                 (setitem ''model_framework'' (JStr ''xgboost'') event3)
          else if pipeline_type \<in> set [''byom_realtime_custom'', ''byom_batch_custom'']
          then setitem ''custom_image_uri'' (JStr ''custom-image-uri'') event3
          else event3)))))))))"

section \<open>IAM policy statements\<close>

text \<open>
  The pseudo parameters \<open>core.Aws.PARTITION\<close>, \<open>core.Aws.REGION\<close> and
  \<open>core.Aws.ACCOUNT_ID\<close>, as the strings they stand for in the deployed stack.
\<close>

record aws =
  PARTITION :: string
  REGION :: string
  ACCOUNT_ID :: string

definition sagemaker_arn_prefix :: "aws \<Rightarrow> string" where
  "sagemaker_arn_prefix a =
     ''arn:'' @ PARTITION a @ '':sagemaker:'' @ REGION a @ '':'' @ ACCOUNT_ID a"

record policy_statement =
  actions :: "string list"
  resources :: "string list"

text \<open>
  \<open>core.Fn.condition_if(condition_id, value_if_true, value_if_false)\<close>, as the value
  CloudFormation resolves it to: the first value when the named condition holds in
  the deployed stack, the second otherwise. The condition is given by its truth value.
\<close>

definition Fn_condition_if :: "bool \<Rightarrow> string \<Rightarrow> string \<Rightarrow> string" where
  "Fn_condition_if condition value_if_true value_if_false =
     (if condition then value_if_true else value_if_false)"

text \<open>
  \<open>endpoint_name\<close> is the value of the CloudFormation parameter
  (\<open>endpoint_name.value_as_string\<close>), \<open>endpoint_name_provided\<close> the value of the
  condition.
\<close>

definition sagemaker_policy_statement :: "aws \<Rightarrow> bool \<Rightarrow> string \<Rightarrow> bool \<Rightarrow> policy_statement" where
  "sagemaker_policy_statement a is_realtime_pipeline endpoint_name endpoint_name_provided =
     (let actions0 = [''sagemaker:CreateModel'', ''sagemaker:DescribeModel'', ''sagemaker:DeleteModel''];
          resources0 = [sagemaker_arn_prefix a @ '':model/mlopssagemakermodel*'']
      in if is_realtime_pipeline
         then
           (let actions1 = actions0 @
                  [''sagemaker:CreateEndpointConfig'',
                   ''sagemaker:DescribeEndpointConfig'',
                   ''sagemaker:DeleteEndpointConfig'',
                   ''sagemaker:CreateEndpoint'',
                   ''sagemaker:DescribeEndpoint'',
                   ''sagemaker:DeleteEndpoint''];
                endpoint = Fn_condition_if endpoint_name_provided endpoint_name
                             ''mlopssagemakerendpoint*'';
                resources1 = resources0 @
                  [sagemaker_arn_prefix a @ '':endpoint-config/mlopssagemakerendpointconfig*'',
                   sagemaker_arn_prefix a @ '':endpoint/'' @ endpoint]
            in \<lparr>actions = actions1, resources = resources1\<rparr>)
         else \<lparr>actions = actions0, resources = resources0\<rparr>)"


section \<open>The solution helper custom resource\<close>

text \<open>
  The handler mutates dictionaries, so dictionaries are objects in a store: a
  reference \<open>VRef a\<close> is the address of the dictionary \<open>heap ! a\<close>. Two references
  to the same address are the same Python object. Strings, numbers and \<open>None\<close> are
  immutable values; a list is never mutated by this code and is kept as a value.
\<close>

type_synonym addr = nat

datatype pyval =
    VNone
  | VBool bool
  | VInt int
  | VStr string
  | VList "pyval list"
  | VRef addr

type_synonym pydict = "(string \<times> pyval) list"

type_synonym heap = "pydict list"

record http_response =
  status_code :: int
  reason :: string

datatype log_record =
    Info_sending_payload pydict
  | Info_response int string
  | Exception_could_not_send py_error
  | Exception_unknown_error py_error

text \<open>
  What persists across the handler: the store, the module-level \<open>helper.Data\<close>
  dictionary, the records written by the module-level logger, and the HTTP requests
  sent (URL, JSON payload, headers).
\<close>

record helper_state =
  heap :: heap
  helper_Data :: pydict
  log_records :: "log_record list"
  posted :: "(string \<times> pydict \<times> (string \<times> string) list) list"

text \<open>
  What the handler gets from outside: the string of a fresh \<open>uuid.uuid4()\<close>, the
  current \<open>datetime.utcnow().isoformat()\<close>, and the outcome of \<open>requests.post\<close>
  (which serialises the payload, so it reads the store).
\<close>

record externals =
  uuid4 :: string
  utcnow_isoformat :: string
  requests_post :: "heap \<Rightarrow> string \<Rightarrow> pydict \<Rightarrow> (string \<times> string) list \<Rightarrow> py_error + http_response"

text \<open>\<open>v[k]\<close> for a string key: only a dictionary has string keys.\<close>

definition subscript :: "heap \<Rightarrow> pyval \<Rightarrow> string \<Rightarrow> py_error + pyval" where
  "subscript h v k =
     (case v of
        VRef a \<Rightarrow>
          if a < length h
          then (case map_of (h ! a) k of None \<Rightarrow> Inl (KeyError k) | Some x \<Rightarrow> Inr x)
          else Inl TypeError
      | _ \<Rightarrow> Inl TypeError)"

text \<open>\<open>len(v)\<close>: defined for strings, lists and dictionaries.\<close>

definition py_len :: "heap \<Rightarrow> pyval \<Rightarrow> py_error + nat" where
  "py_len h v =
     (case v of
        VStr s \<Rightarrow> Inr (length s)
      | VList xs \<Rightarrow> Inr (length xs)
      | VRef a \<Rightarrow> if a < length h then Inr (length (remdups (map fst (h ! a)))) else Inl TypeError
      | _ \<Rightarrow> Inl TypeError)"

text \<open>
  \<open>copy(v)\<close>: a dictionary is copied into a new object with the same items (the
  values are shared); an immutable value is returned as it is.
\<close>

definition copy :: "heap \<Rightarrow> pyval \<Rightarrow> heap \<times> pyval" where
  "copy h v =
     (case v of
        VRef a \<Rightarrow> if a < length h then (h @ [h ! a], VRef (length h)) else (h, v)
      | _ \<Rightarrow> (h, v))"

text \<open>\<open>d.pop(k, None)\<close> on a dictionary: removes the key when present, never raises.\<close>

definition dict_pop :: "string \<Rightarrow> pydict \<Rightarrow> pydict" where
  "dict_pop k d = AList.delete k d"

text \<open>
  \<open>_sanitize_data(resource_properties)\<close>: four \<open>pop\<close> calls on the argument itself,
  which is returned. A value that is not a dictionary has no such \<open>pop\<close>.
\<close>

definition sanitize_data :: "heap \<Rightarrow> pyval \<Rightarrow> py_error + (heap \<times> pyval)" where
  "sanitize_data h resource_properties =
     (case resource_properties of
        VRef a \<Rightarrow>
          if a < length h
          then
            (let h1 = h[a := dict_pop ''ServiceToken'' (h ! a)];
                 h2 = h1[a := dict_pop ''Resource'' (h1 ! a)];
                 h3 = h2[a := dict_pop ''SolutionId'' (h2 ! a)];
                 h4 = h3[a := dict_pop ''UUID'' (h3 ! a)]
             in Inr (h4, resource_properties))
          else Inl AttributeError
      | VList xs \<Rightarrow> Inl TypeError
      | _ \<Rightarrow> Inl AttributeError)"

text \<open>\<open>v[k] = x\<close> on a dictionary object.\<close>

definition store_item :: "heap \<Rightarrow> pyval \<Rightarrow> string \<Rightarrow> pyval \<Rightarrow> py_error + heap" where
  "store_item h v k x =
     (case v of
        VRef a \<Rightarrow> if a < length h then Inr (h[a := setitem k x (h ! a)]) else Inl TypeError
      | _ \<Rightarrow> Inl TypeError)"

text \<open>
  The body of the \<open>try\<close> block of the \<open>AnonymousMetric\<close> branch. It returns the
  exception that leaves the block, if any, with the state reached at that point.
\<close>

definition send_metrics ::
  "externals \<Rightarrow> pyval \<Rightarrow> pyval \<Rightarrow> helper_state \<Rightarrow> py_error option \<times> helper_state" where
  "send_metrics ext request_type resource_properties s =
     (let (h1, copied) = copy (heap s) resource_properties in
      case sanitize_data h1 copied of
        Inl e \<Rightarrow> (Some e, s\<lparr>heap := h1\<rparr>)
      | Inr (h2, metrics_data) \<Rightarrow>
     (case store_item h2 metrics_data ''RequestType'' request_type of
        Inl e \<Rightarrow> (Some e, s\<lparr>heap := h2\<rparr>)
      | Inr h3 \<Rightarrow>
     (let s3 = s\<lparr>heap := h3\<rparr>;
          headers = [(''Content-Type'', ''application/json'')]
      in
      case bind_err (subscript h3 resource_properties ''gitSelected'') (py_len h3) of
        Inl e \<Rightarrow> (Some e, s3)
      | Inr git_len \<Rightarrow>
     (let git_selected = (if git_len > 0 then ''True'' else ''False'') in
      case bind_err (subscript h3 resource_properties ''bucketSelected'') (py_len h3) of
        Inl e \<Rightarrow> (Some e, s3)
      | Inr bucket_len \<Rightarrow>
     (let existing_bucket_selected = (if bucket_len > 0 then ''True'' else ''False'') in
      case subscript h3 resource_properties ''SolutionId'' of
        Inl e \<Rightarrow> (Some e, s3)
      | Inr solution_id \<Rightarrow>
     (case subscript h3 resource_properties ''UUID'' of
        Inl e \<Rightarrow> (Some e, s3)
      | Inr uuid \<Rightarrow>
     (let payload =
            [(''Solution'', solution_id),
             (''gitSelected'', VStr git_selected),
             (''bucketSelected'', VStr existing_bucket_selected),
             (''UUID'', uuid),
             (''TimeStamp'', VStr (utcnow_isoformat ext)),
             (''Data'', metrics_data)];
          s4 = s3\<lparr>log_records := log_records s3 @ [Info_sending_payload payload]\<rparr>;
          url = ''https://metrics.awssolutionsbuilder.com/generic''
      in
      case requests_post ext h3 url payload headers of
        Inl e \<Rightarrow> (Some e, s4)
      | Inr response \<Rightarrow>
          (None, s4\<lparr>posted := posted s4 @ [(url, payload, headers)],
                     log_records := log_records s4 @
                       [Info_response (status_code response) (reason response)]\<rparr>))))))))"

text \<open>
  \<open>custom_resource(event, _)\<close>. The result is \<open>Inl e\<close> when the exception \<open>e\<close>
  leaves the function and \<open>Inr ()\<close> when it returns. The three reads at the top are
  outside the \<open>try\<close> block.
\<close>

definition custom_resource ::
  "externals \<Rightarrow> pyval \<Rightarrow> helper_state \<Rightarrow> (py_error + unit) \<times> helper_state" where
  "custom_resource ext event s =
     (case subscript (heap s) event ''RequestType'' of
        Inl e \<Rightarrow> (Inl e, s)
      | Inr request_type \<Rightarrow>
     (case subscript (heap s) event ''ResourceProperties'' of
        Inl e \<Rightarrow> (Inl e, s)
      | Inr resource_properties \<Rightarrow>
     (case subscript (heap s) resource_properties ''Resource'' of
        Inl e \<Rightarrow> (Inl e, s)
      | Inr resource \<Rightarrow>
      if resource = VStr ''UUID'' \<and> request_type = VStr ''Create''
      then
        (let random_id = uuid4 ext in
         (Inr (), s\<lparr>helper_Data := dict_update (helper_Data s) [(''UUID'', VStr random_id)]\<rparr>))
      else if resource = VStr ''AnonymousMetric''
      then
        (case send_metrics ext request_type resource_properties s of
           (None, s') \<Rightarrow> (Inr (), s')
         | (Some (RequestException m), s') \<Rightarrow>
             (Inr (), s'\<lparr>log_records := log_records s' @
                           [Exception_could_not_send (RequestException m)]\<rparr>)
         | (Some e, s') \<Rightarrow>
             (Inr (), s'\<lparr>log_records := log_records s' @ [Exception_unknown_error e]\<rparr>))
      else (Inr (), s))))"

section \<open>The inference Lambda\<close>

type_synonym bytes = "8 word list"

text \<open>The keyword arguments of one \<open>invoke_endpoint\<close> call.\<close>

record invoke_endpoint_args =
  EndpointName :: string
  Body :: json
  ContentType :: json

text \<open>
  The endpoint's response; \<open>Body_read\<close> is what \<open>response["Body"].read()\<close> returns.
\<close>

record invoke_endpoint_response =
  Body_read :: bytes

text \<open>
  The SageMaker runtime client, by the outcome of its \<open>invoke_endpoint\<close>: a response,
  or the exception the SDK raises.
\<close>

type_synonym sm_client = "invoke_endpoint_args \<Rightarrow> py_error + invoke_endpoint_response"

text \<open>
  The Python library functions used: \<open>json.loads\<close> on a string and \<open>bytes.decode\<close>.
\<close>

record py_lib =
  json_loads :: "string \<Rightarrow> py_error + json"
  bytes_decode :: "bytes \<Rightarrow> py_error + string"

record api_response =
  statusCode :: int
  isBase64Encoded :: bool
  body :: string
  headers :: "(string \<times> string) list"

text \<open>
  \<open>invoke(event_body, endpoint_name, sm_client)\<close>, returning its result (or the
  exception it raises) and the \<open>invoke_endpoint\<close> calls it made, in order.
\<close>

definition invoke ::
  "py_lib \<Rightarrow> json \<Rightarrow> string \<Rightarrow> sm_client \<Rightarrow> (py_error + api_response) \<times> invoke_endpoint_args list" where
  "invoke lib event_body endpoint_name sm_client =
     (case getitem event_body ''payload'' of
        Inl e \<Rightarrow> (Inl e, [])
      | Inr payload \<Rightarrow>
     (case getitem event_body ''ContentType'' of
        Inl e \<Rightarrow> (Inl e, [])
      | Inr content_type \<Rightarrow>
     (let args = \<lparr>EndpointName = endpoint_name, Body = payload, ContentType = content_type\<rparr> in
      case sm_client args of
        Inl e \<Rightarrow> (Inl e, [args])
      | Inr response \<Rightarrow>
     (case bytes_decode lib (Body_read response) of
        Inl e \<Rightarrow> (Inl e, [args])
      | Inr predictions \<Rightarrow>
          (Inr \<lparr>statusCode = 200,
                isBase64Encoded = False,
                body = predictions,
                headers = [(''Content-Type'', ''plain/text'')]\<rparr>,
           [args])))))"

text \<open>
  The function \<open>handler(event, context)\<close> as written, with the process environment
  and the module-level client as arguments. \<open>json.loads\<close> takes a string. \<open>Inl e\<close>
  is the exception \<open>e\<close> raised to the decorator \<open>api_exception_handler\<close>, which is
  defined in \<open>shared.wrappers\<close>, outside the files modelled here.
\<close>

definition handler ::
  "py_lib \<Rightarrow> environ \<Rightarrow> sm_client \<Rightarrow> json \<Rightarrow> (py_error + api_response) \<times> invoke_endpoint_args list" where
  "handler lib env sagemaker_client event =
     (case bind_err (getitem event ''body'')
             (\<lambda>b. case b of JStr s \<Rightarrow> json_loads lib s | _ \<Rightarrow> Inl TypeError) of
        Inl e \<Rightarrow> (Inl e, [])
      | Inr event_body \<Rightarrow>
     (case environ_get env ''ENDPOINT_NAME'' of
        Inl e \<Rightarrow> (Inl e, [])
      | Inr endpoint_name \<Rightarrow> invoke lib event_body endpoint_name sagemaker_client))"

section \<open>The baseline-job Lambda function\<close>

text \<open>
  The arguments of \<open>create_baseline_job_lambda\<close> that reach the function's
  properties. CDK values are strings (possibly deploy-time tokens); \<open>None\<close> is
  Python's \<open>None\<close>, the default of the five model-quality arguments.
  \<open>assets_bucket_name\<close> is \<open>assets_bucket.bucket_name\<close>.
\<close>

record baseline_job_args =
  assets_bucket_name :: "string option"
  monitoring_type :: string
  baseline_job_name :: "string option"
  baseline_data_location :: "string option"
  baseline_job_output_location :: "string option"
  endpoint_name :: "string option"
  instance_type :: "string option"
  instance_volume_size :: "string option"
  max_runtime_seconds :: "string option"
  kms_key_arn :: "string option"
  stack_name :: "string option"
  problem_type :: "string option"
  ground_truth_attribute :: "string option"
  inference_attribute :: "string option"
  probability_attribute :: "string option"
  probability_threshold_attribute :: "string option"

text \<open>The properties of the \<open>lambda_.Function\<close> construct that the function sets.\<close>

record lambda_function =
  construct_id :: string
  runtime :: string
  handler_name :: string
  code_key :: string
  environment :: "(string \<times> string option) list"
  timeout_minutes :: nat

definition lambda_handler :: string where
  "lambda_handler = ''main.handler''"

text \<open>
  \<open>create_baseline_job_lambda\<close>, from the environment dictionary on.
  \<open>sagemaker_role_arn\<close> is \<open>sagemaker_role.role_arn\<close> of the role created earlier in
  the function; the roles and policies themselves are CDK constructs attached to
  the scope and are not part of the returned function's properties modelled here.
\<close>

definition create_baseline_job_lambda :: "string option \<Rightarrow> baseline_job_args \<Rightarrow> lambda_function" where
  "create_baseline_job_lambda sagemaker_role_arn args =
     (let lambda_environment_variables =
        [(''MONITORING_TYPE'', Some (monitoring_type args)),
         (''BASELINE_JOB_NAME'', baseline_job_name args),
         (''ASSETS_BUCKET'', assets_bucket_name args),
         (''SAGEMAKER_ENDPOINT_NAME'', endpoint_name args),
         (''BASELINE_DATA_LOCATION'', baseline_data_location args),
         (''BASELINE_JOB_OUTPUT_LOCATION'', baseline_job_output_location args),
         (''INSTANCE_TYPE'', instance_type args),
         (''INSTANCE_VOLUME_SIZE'', instance_volume_size args),
         (''MAX_RUNTIME_SECONDS'', max_runtime_seconds args),
         (''ROLE_ARN'', sagemaker_role_arn),
         (''KMS_KEY_ARN'', kms_key_arn args),
         (''STACK_NAME'', stack_name args),
         (''LOG_LEVEL'', Some ''INFO'')];
          lambda_environment_variables' =
        (if monitoring_type args = ''ModelQuality''
         then dict_update lambda_environment_variables
           [(''PROBLEM_TYPE'', problem_type args),
            (''GROUND_TRUTH_ATTRIBUTE'', ground_truth_attribute args),
            (''INFERENCE_ATTRIBUTE'', inference_attribute args),
            (''PROBABILITY_ATTRIBUTE'', probability_attribute args),
            (''PROBABILITY_THRESHOLD_ATTRIBUTE'', probability_threshold_attribute args)]
         else lambda_environment_variables)
      in \<lparr>construct_id = ''create_data_baseline_job'',
          runtime = ''python3.8'',
          handler_name = lambda_handler,
          code_key = ''blueprints/byom/lambdas/create_baseline_job.zip'',
          environment = lambda_environment_variables',
          timeout_minutes = 10\<rparr>)"

section \<open>Example inputs\<close>

text \<open>
  Concrete inputs at which the theorems below are instantiated. \<open>example_lib\<close>
  agrees with \<open>json.loads\<close> and \<open>bytes.decode\<close> on the one text and the one byte
  string used (the bytes of \<open>0.9\<close>); \<open>answering_client\<close> is an endpoint that answers
  \<open>0.9\<close>, \<open>failing_client\<close> one whose call raises a client error.
  \<open>example_helper_state\<close> holds a CloudFormation custom-resource event at address 0
  and its \<open>ResourceProperties\<close> at address 1; in \<open>example_externals\<close> the HTTP post
  fails with a request exception.
\<close>

definition example_body :: string where
  \<open>example_body = ''{"payload": "1,2,3", "ContentType": "text/csv"}''\<close>

definition example_lib :: py_lib where
  "example_lib =
     \<lparr>json_loads = (\<lambda>s. if s = example_body
          then Inr (JDict [(''payload'', JStr ''1,2,3''), (''ContentType'', JStr ''text/csv'')])
          else Inl JSONDecodeError),
      bytes_decode = (\<lambda>b. if b = [0x30, 0x2E, 0x39] then Inr ''0.9''
          else Inl UnicodeDecodeError)\<rparr>"

definition example_environ :: environ where
  "example_environ = [''ENDPOINT_NAME'' \<mapsto> ''my-endpoint'']"

definition example_event :: json where
  "example_event = JDict [(''httpMethod'', JStr ''POST''), (''body'', JStr example_body)]"

definition answering_client :: sm_client where
  "answering_client args = Inr \<lparr>Body_read = [0x30, 0x2E, 0x39]\<rparr>"

definition failing_client :: sm_client where
  "failing_client args = Inl (ClientError ''ValidationError'')"

definition example_externals :: externals where
  "example_externals =
     \<lparr>uuid4 = ''16fd2706-8baf-433b-82eb-8c7fada847da'',
      utcnow_isoformat = ''2021-03-01T12:00:00.000000'',
      requests_post = (\<lambda>h url payload headers. Inl (RequestException ''ConnectionError''))\<rparr>"

definition example_helper_state :: "string \<Rightarrow> string \<Rightarrow> helper_state" where
  "example_helper_state request_type resource =
     \<lparr>heap =
        [[(''RequestType'', VStr request_type), (''ResourceProperties'', VRef 1)],
         [(''ServiceToken'', VStr ''arn:aws:lambda:us-east-1:123456789012:function:helper''),
          (''Resource'', VStr resource),
          (''SolutionId'', VStr ''SO0136''),
          (''UUID'', VStr ''16fd2706-8baf-433b-82eb-8c7fada847da''),
          (''gitSelected'', VStr []),
          (''bucketSelected'', VStr ''my-bucket''),
          (''Version'', VStr ''v1.3.0'')]],
      helper_Data = [],
      log_records = [],
      posted = []\<rparr>"

section \<open>Properties of the required-keys lists\<close>

text \<open>
  Claim C4. For every monitoring type other than "ModelQuality" the required-keys
  list of a model-monitor call is exactly the eleven common keys. For
  "ModelQuality" it is the eleven common keys followed by
  \<open>baseline_inference_attribute\<close>, \<open>baseline_ground_truth_attribute\<close>,
  \<open>problem_type\<close> and \<open>monitor_ground_truth_input\<close>, and then by
  \<open>monitor_inference_attribute\<close> when the problem type is "Regression" or
  "MulticlassClassification", and by \<open>monitor_probability_attribute\<close>,
  \<open>probability_threshold_attribute\<close> and \<open>baseline_probability_attribute\<close> for every
  other problem type (\<open>None\<close> included).
\<close>

theorem required_api_keys_model_monitor_lists:
  "(mt \<noteq> ''ModelQuality'' \<longrightarrow>
      required_api_keys_model_monitor mt pt =
        [''pipeline_type'', ''model_name'', ''endpoint_name'', ''baseline_data'',
         ''baseline_job_output_location'', ''data_capture_location'',
         ''monitoring_output_location'', ''schedule_expression'',
         ''monitor_max_runtime_seconds'', ''instance_type'', ''instance_volume_size''])
   \<and> (pt = Some ''Regression'' \<or> pt = Some ''MulticlassClassification'' \<longrightarrow>
      required_api_keys_model_monitor ''ModelQuality'' pt =
        [''pipeline_type'', ''model_name'', ''endpoint_name'', ''baseline_data'',
         ''baseline_job_output_location'', ''data_capture_location'',
         ''monitoring_output_location'', ''schedule_expression'',
         ''monitor_max_runtime_seconds'', ''instance_type'', ''instance_volume_size'',
         ''baseline_inference_attribute'', ''baseline_ground_truth_attribute'',
         ''problem_type'', ''monitor_ground_truth_input'', ''monitor_inference_attribute''])
   \<and> (pt \<noteq> Some ''Regression'' \<and> pt \<noteq> Some ''MulticlassClassification'' \<longrightarrow>
      required_api_keys_model_monitor ''ModelQuality'' pt =
        [''pipeline_type'', ''model_name'', ''endpoint_name'', ''baseline_data'',
         ''baseline_job_output_location'', ''data_capture_location'',
         ''monitoring_output_location'', ''schedule_expression'',
         ''monitor_max_runtime_seconds'', ''instance_type'', ''instance_volume_size'',
         ''baseline_inference_attribute'', ''baseline_ground_truth_attribute'',
         ''problem_type'', ''monitor_ground_truth_input'', ''monitor_probability_attribute'',
         ''probability_threshold_attribute'', ''baseline_probability_attribute''])"
  by (simp add: required_api_keys_model_monitor_def)

theorem required_api_keys_model_monitor_lists_witness:
  "''DataQuality'' \<noteq> ''ModelQuality''
   \<and> length (required_api_keys_model_monitor ''DataQuality'' None) = 11
   \<and> last (required_api_keys_model_monitor ''ModelQuality'' (Some ''Regression''))
       = ''monitor_inference_attribute''
   \<and> length (required_api_keys_model_monitor ''ModelQuality'' (Some ''Regression'')) = 16
   \<and> Some ''BinaryClassification'' \<noteq> Some ''Regression''
   \<and> Some ''BinaryClassification'' \<noteq> Some ''MulticlassClassification''
   \<and> length (required_api_keys_model_monitor ''ModelQuality'' (Some ''BinaryClassification'')) = 18
   \<and> last (required_api_keys_model_monitor ''ModelQuality'' None)
       = ''baseline_probability_attribute''"
  using required_api_keys_model_monitor_lists [of "''DataQuality''" None]
    required_api_keys_model_monitor_lists [of "''ModelQuality''" "Some ''Regression''"]
    required_api_keys_model_monitor_lists [of "''ModelQuality''" "Some ''BinaryClassification''"]
    required_api_keys_model_monitor_lists [of "''ModelQuality''" None]
  by simp

text \<open>
  Claim C5. The required-keys list of the \<open>byom_realtime_builtin\<close> pipeline always
  contains \<open>pipeline_type\<close>, \<open>model_name\<close>, \<open>inference_instance\<close> and
  \<open>data_capture_location\<close>; it contains \<open>model_package_name\<close> exactly when
  \<open>use_model_registry\<close> is "Yes", and each of \<open>model_framework\<close>,
  \<open>model_framework_version\<close> and \<open>model_artifact_location\<close> exactly when it is not.
\<close>

theorem required_api_byom_realtime_builtin_keys:
  "{''pipeline_type'', ''model_name'', ''inference_instance'', ''data_capture_location''}
      \<subseteq> set (required_api_byom_realtime_builtin umr)
   \<and> (''model_package_name'' \<in> set (required_api_byom_realtime_builtin umr)
        \<longleftrightarrow> umr = ''Yes'')
   \<and> (''model_framework'' \<in> set (required_api_byom_realtime_builtin umr)
        \<longleftrightarrow> umr \<noteq> ''Yes'')
   \<and> (''model_framework_version'' \<in> set (required_api_byom_realtime_builtin umr)
        \<longleftrightarrow> umr \<noteq> ''Yes'')
   \<and> (''model_artifact_location'' \<in> set (required_api_byom_realtime_builtin umr)
        \<longleftrightarrow> umr \<noteq> ''Yes'')"
  by (simp add: required_api_byom_realtime_builtin_def Let_def)

theorem required_api_byom_realtime_builtin_keys_witness:
  "''model_package_name'' \<in> set (required_api_byom_realtime_builtin ''Yes'')
   \<and> ''model_framework'' \<notin> set (required_api_byom_realtime_builtin ''Yes'')
   \<and> ''No'' \<noteq> ''Yes''
   \<and> ''model_package_name'' \<notin> set (required_api_byom_realtime_builtin ''No'')
   \<and> ''model_artifact_location'' \<in> set (required_api_byom_realtime_builtin ''No'')
   \<and> ''data_capture_location'' \<in> set (required_api_byom_realtime_builtin ''No'')"
  using required_api_byom_realtime_builtin_keys [of "''Yes''"]
    required_api_byom_realtime_builtin_keys [of "''No''"]
  by simp

section \<open>Properties of the SageMaker policy statement\<close>

text \<open>
  Claim C2. Whatever the endpoint name and the value of the endpoint-name-provided
  condition, the statement of a pipeline that is not realtime has exactly the
  actions CreateModel, DescribeModel and DeleteModel and the single resource
  \<open>model/mlopssagemakermodel*\<close>. The statement of a realtime pipeline has these and
  the six endpoint-config and endpoint actions, and its resources are the model
  ARN, the \<open>endpoint-config/mlopssagemakerendpointconfig*\<close> ARN and the endpoint
  ARN, built from the provided name when the condition holds and from
  \<open>mlopssagemakerendpoint*\<close> otherwise.
\<close>

theorem sagemaker_policy_statement_cases:
  "sagemaker_policy_statement a False n p =
     \<lparr>actions = [''sagemaker:CreateModel'', ''sagemaker:DescribeModel'',
                 ''sagemaker:DeleteModel''],
      resources = [sagemaker_arn_prefix a @ '':model/mlopssagemakermodel*'']\<rparr>
   \<and> sagemaker_policy_statement a True n p =
     \<lparr>actions = [''sagemaker:CreateModel'', ''sagemaker:DescribeModel'',
                 ''sagemaker:DeleteModel'', ''sagemaker:CreateEndpointConfig'',
                 ''sagemaker:DescribeEndpointConfig'', ''sagemaker:DeleteEndpointConfig'',
                 ''sagemaker:CreateEndpoint'', ''sagemaker:DescribeEndpoint'',
                 ''sagemaker:DeleteEndpoint''],
      resources = [sagemaker_arn_prefix a @ '':model/mlopssagemakermodel*'',
                   sagemaker_arn_prefix a @ '':endpoint-config/mlopssagemakerendpointconfig*'',
                   sagemaker_arn_prefix a @ '':endpoint/'' @
                     (if p then n else ''mlopssagemakerendpoint*'')]\<rparr>"
  by (simp add: sagemaker_policy_statement_def Fn_condition_if_def Let_def)

theorem sagemaker_policy_statement_cases_witness:
  "resources (sagemaker_policy_statement
      \<lparr>PARTITION = ''aws'', REGION = ''us-east-1'', ACCOUNT_ID = ''123456789012''\<rparr>
      True ''my-endpoint'' True) =
     [''arn:aws:sagemaker:us-east-1:123456789012:model/mlopssagemakermodel*'',
      ''arn:aws:sagemaker:us-east-1:123456789012:endpoint-config/mlopssagemakerendpointconfig*'',
      ''arn:aws:sagemaker:us-east-1:123456789012:endpoint/my-endpoint'']
   \<and> resources (sagemaker_policy_statement
      \<lparr>PARTITION = ''aws'', REGION = ''us-east-1'', ACCOUNT_ID = ''123456789012''\<rparr>
      True ''my-endpoint'' False) =
     [''arn:aws:sagemaker:us-east-1:123456789012:model/mlopssagemakermodel*'',
      ''arn:aws:sagemaker:us-east-1:123456789012:endpoint-config/mlopssagemakerendpointconfig*'',
      ''arn:aws:sagemaker:us-east-1:123456789012:endpoint/mlopssagemakerendpoint*'']"
  using sagemaker_policy_statement_cases
      [of "\<lparr>PARTITION = ''aws'', REGION = ''us-east-1'', ACCOUNT_ID = ''123456789012''\<rparr>"
          "''my-endpoint''" True]
    sagemaker_policy_statement_cases
      [of "\<lparr>PARTITION = ''aws'', REGION = ''us-east-1'', ACCOUNT_ID = ''123456789012''\<rparr>"
          "''my-endpoint''" False]
  by (simp add: sagemaker_arn_prefix_def)

section \<open>Properties of the BYOM API event\<close>

lemma mock_env_reads:
  "environ_get (mock_env_variables env) ''INSTANCETYPE'' = Inr ''ml.m5.large''"
  "environ_get (mock_env_variables env) ''BATCHOUTPUT'' = Inr ''bucket/output''"
  "environ_get (mock_env_variables env) ''DATACAPTURE'' = Inr ''bucket/datacapture''"
  "environ_get (mock_env_variables env) ''MODELARTIFACTLOCATION'' = Inr ''model.tar.gz''"
  "environ_get (mock_env_variables env) ''MODEL_PACKAGE_NAME'' =
     Inr ''arn:aws:sagemaker:*:*:model-package/xgboost/1''"
  "environ_get (mock_env_variables env) ''INFERENCEDATA'' = Inr ''inference/data.csv''"
  by (simp_all add: mock_env_variables_def environ_get_def)

lemma dict_keys_setitem: "dict_keys (setitem k v d) = insert k (dict_keys d)"
  by (simp add: dict_keys_def setitem_def dom_update)

lemma dict_keys_literal:
  "dict_keys [] = {}"
  "dict_keys ((k, v) # d) = insert k (dict_keys d)"
  by (simp_all add: dict_keys_def)

lemmas api_byom_event_unfold =
  api_byom_event_def mock_env_reads bind_err_def str_bool_def dict_keys_setitem

lemma api_byom_event_realtime_builtin:
  "\<exists>ev. api_byom_event (mock_env_variables env) ''byom_realtime_builtin'' im enp = Inr ev
     \<and> dict_keys ev = (if enp then insert ''endpoint_name'' else id)
         {''model_framework_version'', ''model_framework'', ''data_capture_location'',
          ''inference_instance'', ''pipeline_type'', ''model_name'', ''model_artifact_location'',
          ''model_package_name''}"
  by (cases im; cases enp)
     (simp_all add: api_byom_event_unfold, simp_all add: dict_keys_literal insert_commute)

lemma api_byom_event_realtime_custom:
  "\<exists>ev. api_byom_event (mock_env_variables env) ''byom_realtime_custom'' im enp = Inr ev
     \<and> dict_keys ev = (if enp then insert ''endpoint_name'' else id)
         {''custom_image_uri'', ''data_capture_location'',
          ''inference_instance'', ''pipeline_type'', ''model_name'', ''model_artifact_location'',
          ''model_package_name''}"
  by (cases im; cases enp)
     (simp_all add: api_byom_event_unfold, simp_all add: dict_keys_literal insert_commute)

lemma api_byom_event_batch_builtin:
  "\<exists>ev. api_byom_event (mock_env_variables env) ''byom_batch_builtin'' im enp = Inr ev
     \<and> dict_keys ev =
         {''model_framework_version'', ''model_framework'', ''batch_job_output_location'',
          ''batch_inference_data'', ''inference_instance'', ''pipeline_type'', ''model_name'',
          ''model_artifact_location'', ''model_package_name''}"
  by (cases im) (simp_all add: api_byom_event_unfold, simp_all add: dict_keys_literal)

lemma api_byom_event_batch_custom:
  "\<exists>ev. api_byom_event (mock_env_variables env) ''byom_batch_custom'' im enp = Inr ev
     \<and> dict_keys ev =
         {''custom_image_uri'', ''batch_job_output_location'', ''batch_inference_data'',
          ''inference_instance'', ''pipeline_type'', ''model_name'', ''model_artifact_location'',
          ''model_package_name''}"
  by (cases im) (simp_all add: api_byom_event_unfold, simp_all add: dict_keys_literal)

text \<open>
  Claim C6. In the environment set up by \<open>mock_env_variables\<close>, for each of the four
  BYOM pipeline types and every value of the two flags, the event is built (no
  exception) and contains \<open>pipeline_type\<close>, \<open>model_name\<close>,
  \<open>model_artifact_location\<close>, \<open>model_package_name\<close> and \<open>inference_instance\<close>; it
  contains \<open>batch_inference_data\<close> and \<open>batch_job_output_location\<close> exactly for the
  two batch types, \<open>data_capture_location\<close> exactly for the two realtime types,
  \<open>model_framework\<close> and \<open>model_framework_version\<close> exactly for the two builtin types,
  and \<open>custom_image_uri\<close> exactly for the two custom types.
\<close>

theorem api_byom_event_keys:
  assumes "pt \<in> {''byom_realtime_builtin'', ''byom_realtime_custom'',
                  ''byom_batch_builtin'', ''byom_batch_custom''}"
  shows "\<exists>ev. api_byom_event (mock_env_variables env) pt im enp = Inr ev
     \<and> {''pipeline_type'', ''model_name'', ''model_artifact_location'', ''model_package_name'',
         ''inference_instance''} \<subseteq> dict_keys ev
     \<and> (''batch_inference_data'' \<in> dict_keys ev
          \<longleftrightarrow> pt \<in> {''byom_batch_builtin'', ''byom_batch_custom''})
     \<and> (''batch_job_output_location'' \<in> dict_keys ev
          \<longleftrightarrow> pt \<in> {''byom_batch_builtin'', ''byom_batch_custom''})
     \<and> (''data_capture_location'' \<in> dict_keys ev
          \<longleftrightarrow> pt \<in> {''byom_realtime_builtin'', ''byom_realtime_custom''})
     \<and> (''model_framework'' \<in> dict_keys ev
          \<longleftrightarrow> pt \<in> {''byom_realtime_builtin'', ''byom_batch_builtin''})
     \<and> (''model_framework_version'' \<in> dict_keys ev
          \<longleftrightarrow> pt \<in> {''byom_realtime_builtin'', ''byom_batch_builtin''})
     \<and> (''custom_image_uri'' \<in> dict_keys ev
          \<longleftrightarrow> pt \<in> {''byom_realtime_custom'', ''byom_batch_custom''})"
proof -
  consider "pt = ''byom_realtime_builtin''" | "pt = ''byom_realtime_custom''"
    | "pt = ''byom_batch_builtin''" | "pt = ''byom_batch_custom''"
    using assms by auto
  then show ?thesis
  proof cases
    case 1
    from api_byom_event_realtime_builtin [of env im enp]
    obtain ev where ev: "api_byom_event (mock_env_variables env) ''byom_realtime_builtin'' im enp = Inr ev"
      and keys: "dict_keys ev = (if enp then insert ''endpoint_name'' else id)
         {''model_framework_version'', ''model_framework'', ''data_capture_location'',
          ''inference_instance'', ''pipeline_type'', ''model_name'', ''model_artifact_location'',
          ''model_package_name''}"
      by (elim exE conjE)
    show ?thesis unfolding 1 by (rule exI [of _ ev]) (simp add: ev keys)
  next
    case 2
    from api_byom_event_realtime_custom [of env im enp]
    obtain ev where ev: "api_byom_event (mock_env_variables env) ''byom_realtime_custom'' im enp = Inr ev"
      and keys: "dict_keys ev = (if enp then insert ''endpoint_name'' else id)
         {''custom_image_uri'', ''data_capture_location'',
          ''inference_instance'', ''pipeline_type'', ''model_name'', ''model_artifact_location'',
          ''model_package_name''}"
      by (elim exE conjE)
    show ?thesis unfolding 2 by (rule exI [of _ ev]) (simp add: ev keys)
  next
    case 3
    from api_byom_event_batch_builtin [of env im enp]
    obtain ev where ev: "api_byom_event (mock_env_variables env) ''byom_batch_builtin'' im enp = Inr ev"
      and keys: "dict_keys ev =
         {''model_framework_version'', ''model_framework'', ''batch_job_output_location'',
          ''batch_inference_data'', ''inference_instance'', ''pipeline_type'', ''model_name'',
          ''model_artifact_location'', ''model_package_name''}"
      by (elim exE conjE)
    show ?thesis unfolding 3 by (rule exI [of _ ev]) (simp add: ev keys)
  next
    case 4
    from api_byom_event_batch_custom [of env im enp]
    obtain ev where ev: "api_byom_event (mock_env_variables env) ''byom_batch_custom'' im enp = Inr ev"
      and keys: "dict_keys ev =
         {''custom_image_uri'', ''batch_job_output_location'', ''batch_inference_data'',
          ''inference_instance'', ''pipeline_type'', ''model_name'', ''model_artifact_location'',
          ''model_package_name''}"
      by (elim exE conjE)
    show ?thesis unfolding 4 by (rule exI [of _ ev]) (simp add: ev keys)
  qed
qed

theorem api_byom_event_keys_witness:
  "''byom_batch_custom'' \<in> {''byom_realtime_builtin'', ''byom_realtime_custom'',
                  ''byom_batch_builtin'', ''byom_batch_custom''}
   \<and> (\<exists>ev. api_byom_event (mock_env_variables Map.empty) ''byom_batch_custom'' False False = Inr ev
        \<and> ''custom_image_uri'' \<in> dict_keys ev
        \<and> ''batch_inference_data'' \<in> dict_keys ev
        \<and> ''model_framework'' \<notin> dict_keys ev
        \<and> ''data_capture_location'' \<notin> dict_keys ev)"
proof -
  have h: "''byom_batch_custom'' \<in> {''byom_realtime_builtin'', ''byom_realtime_custom'',
                  ''byom_batch_builtin'', ''byom_batch_custom''}"
    by simp
  from api_byom_event_keys [OF h, of Map.empty False False]
  obtain ev where "api_byom_event (mock_env_variables Map.empty) ''byom_batch_custom'' False False = Inr ev"
    and "''custom_image_uri'' \<in> dict_keys ev \<longleftrightarrow> ''byom_batch_custom'' \<in> {''byom_realtime_custom'', ''byom_batch_custom''}"
    and "''batch_inference_data'' \<in> dict_keys ev \<longleftrightarrow> ''byom_batch_custom'' \<in> {''byom_batch_builtin'', ''byom_batch_custom''}"
    and "''model_framework'' \<in> dict_keys ev \<longleftrightarrow> ''byom_batch_custom'' \<in> {''byom_realtime_builtin'', ''byom_batch_builtin''}"
    and "''data_capture_location'' \<in> dict_keys ev \<longleftrightarrow> ''byom_batch_custom'' \<in> {''byom_realtime_builtin'', ''byom_realtime_custom''}"
    by (elim exE conjE)
  then show ?thesis using h by (intro conjI exI [of _ ev]) simp_all
qed

section \<open>Properties of the baseline-job Lambda function\<close>

text \<open>
  Claim C3. The environment of the Lambda function that
  \<open>create_baseline_job_lambda\<close> creates contains each of \<open>PROBLEM_TYPE\<close>,
  \<open>GROUND_TRUTH_ATTRIBUTE\<close>, \<open>INFERENCE_ATTRIBUTE\<close>, \<open>PROBABILITY_ATTRIBUTE\<close> and
  \<open>PROBABILITY_THRESHOLD_ATTRIBUTE\<close> if and only if the monitoring type is
  "ModelQuality", and it contains the thirteen base variables for every monitoring
  type.
\<close>

theorem create_baseline_job_lambda_environment:
  "(\<forall>k \<in> {''PROBLEM_TYPE'', ''GROUND_TRUTH_ATTRIBUTE'', ''INFERENCE_ATTRIBUTE'',
            ''PROBABILITY_ATTRIBUTE'', ''PROBABILITY_THRESHOLD_ATTRIBUTE''}.
      k \<in> dict_keys (environment (create_baseline_job_lambda r args))
        \<longleftrightarrow> monitoring_type args = ''ModelQuality'')
   \<and> {''MONITORING_TYPE'', ''BASELINE_JOB_NAME'', ''ASSETS_BUCKET'', ''SAGEMAKER_ENDPOINT_NAME'',
       ''BASELINE_DATA_LOCATION'', ''BASELINE_JOB_OUTPUT_LOCATION'', ''INSTANCE_TYPE'',
       ''INSTANCE_VOLUME_SIZE'', ''MAX_RUNTIME_SECONDS'', ''ROLE_ARN'', ''KMS_KEY_ARN'',
       ''STACK_NAME'', ''LOG_LEVEL''}
      \<subseteq> dict_keys (environment (create_baseline_job_lambda r args))"
  by (simp add: create_baseline_job_lambda_def dict_update_def dict_keys_setitem dict_keys_literal Let_def)

theorem create_baseline_job_lambda_environment_witness:
  "''PROBLEM_TYPE'' \<in> dict_keys (environment (create_baseline_job_lambda (Some ''arn:role'')
        \<lparr>assets_bucket_name = Some ''assets'', monitoring_type = ''ModelQuality'',
         baseline_job_name = Some ''job'', baseline_data_location = Some ''data.csv'',
         baseline_job_output_location = Some ''assets/out'', endpoint_name = Some ''ep'',
         instance_type = Some ''ml.m5.large'', instance_volume_size = Some ''20'',
         max_runtime_seconds = Some ''3600'', kms_key_arn = None,
         stack_name = Some ''stack'', problem_type = Some ''Regression'',
         ground_truth_attribute = Some ''label'', inference_attribute = Some ''0'',
         probability_attribute = None, probability_threshold_attribute = None\<rparr>))
   \<and> ''PROBLEM_TYPE'' \<notin> dict_keys (environment (create_baseline_job_lambda (Some ''arn:role'')
        \<lparr>assets_bucket_name = Some ''assets'', monitoring_type = ''DataQuality'',
         baseline_job_name = Some ''job'', baseline_data_location = Some ''data.csv'',
         baseline_job_output_location = Some ''assets/out'', endpoint_name = Some ''ep'',
         instance_type = Some ''ml.m5.large'', instance_volume_size = Some ''20'',
         max_runtime_seconds = Some ''3600'', kms_key_arn = None,
         stack_name = Some ''stack'', problem_type = None,
         ground_truth_attribute = None, inference_attribute = None,
         probability_attribute = None, probability_threshold_attribute = None\<rparr>))
   \<and> ''LOG_LEVEL'' \<in> dict_keys (environment (create_baseline_job_lambda (Some ''arn:role'')
        \<lparr>assets_bucket_name = Some ''assets'', monitoring_type = ''DataQuality'',
         baseline_job_name = Some ''job'', baseline_data_location = Some ''data.csv'',
         baseline_job_output_location = Some ''assets/out'', endpoint_name = Some ''ep'',
         instance_type = Some ''ml.m5.large'', instance_volume_size = Some ''20'',
         max_runtime_seconds = Some ''3600'', kms_key_arn = None,
         stack_name = Some ''stack'', problem_type = None,
         ground_truth_attribute = None, inference_attribute = None,
         probability_attribute = None, probability_threshold_attribute = None\<rparr>))"
  using create_baseline_job_lambda_environment [of "Some ''arn:role''"
        "\<lparr>assets_bucket_name = Some ''assets'', monitoring_type = ''ModelQuality'',
         baseline_job_name = Some ''job'', baseline_data_location = Some ''data.csv'',
         baseline_job_output_location = Some ''assets/out'', endpoint_name = Some ''ep'',
         instance_type = Some ''ml.m5.large'', instance_volume_size = Some ''20'',
         max_runtime_seconds = Some ''3600'', kms_key_arn = None,
         stack_name = Some ''stack'', problem_type = Some ''Regression'',
         ground_truth_attribute = Some ''label'', inference_attribute = Some ''0'',
         probability_attribute = None, probability_threshold_attribute = None\<rparr>"]
    create_baseline_job_lambda_environment [of "Some ''arn:role''"
        "\<lparr>assets_bucket_name = Some ''assets'', monitoring_type = ''DataQuality'',
         baseline_job_name = Some ''job'', baseline_data_location = Some ''data.csv'',
         baseline_job_output_location = Some ''assets/out'', endpoint_name = Some ''ep'',
         instance_type = Some ''ml.m5.large'', instance_volume_size = Some ''20'',
         max_runtime_seconds = Some ''3600'', kms_key_arn = None,
         stack_name = Some ''stack'', problem_type = None,
         ground_truth_attribute = None, inference_attribute = None,
         probability_attribute = None, probability_threshold_attribute = None\<rparr>"]
  by simp

section \<open>Properties of the solution helper\<close>

lemma example_helper_state_reads:
  "subscript (heap (example_helper_state rt res)) (VRef 0) ''RequestType'' = Inr (VStr rt)"
  "subscript (heap (example_helper_state rt res)) (VRef 0) ''ResourceProperties'' = Inr (VRef 1)"
  "subscript (heap (example_helper_state rt res)) (VRef 1) ''Resource'' = Inr (VStr res)"
  by (simp_all add: example_helper_state_def subscript_def)

lemma subscript_Inr_D:
  assumes "subscript h v k = Inr x"
  obtains a where "v = VRef a" and "a < length h" and "map_of (h ! a) k = Some x"
  using assms
  by (cases v) (auto simp add: subscript_def split: if_splits option.splits)

lemma sanitize_data_dict:
  assumes "a < length h"
  shows "sanitize_data h (VRef a) =
     Inr (h[a := dict_pop ''UUID'' (dict_pop ''SolutionId'' (dict_pop ''Resource''
            (dict_pop ''ServiceToken'' (h ! a))))], VRef a)"
  using assms by (simp add: sanitize_data_def Let_def)

lemma send_metrics_state:
  assumes "a < length (heap s)"
  shows "heap (snd (send_metrics ext rt (VRef a) s)) =
      heap s @ [setitem ''RequestType'' rt
        (dict_pop ''UUID'' (dict_pop ''SolutionId'' (dict_pop ''Resource''
            (dict_pop ''ServiceToken'' (heap s ! a)))))]
    \<and> helper_Data (snd (send_metrics ext rt (VRef a) s)) = helper_Data s"
  using assms
  by (simp add: send_metrics_def copy_def sanitize_data_dict store_item_def Let_def
      split: sum.splits)

lemma custom_resource_anonymous_metric:
  assumes "subscript (heap s) event ''RequestType'' = Inr rt"
    and "subscript (heap s) event ''ResourceProperties'' = Inr rp"
    and "subscript (heap s) rp ''Resource'' = Inr (VStr ''AnonymousMetric'')"
  shows "custom_resource ext event s =
     (case send_metrics ext rt rp s of
        (None, s') \<Rightarrow> (Inr (), s')
      | (Some e, s') \<Rightarrow>
          (Inr (), s'\<lparr>log_records := log_records s' @
             [case e of RequestException m \<Rightarrow> Exception_could_not_send e
                      | _ \<Rightarrow> Exception_unknown_error e]\<rparr>))"
  using assms
  by (simp add: custom_resource_def split: prod.splits option.splits py_error.splits)

lemma custom_resource_anonymous_metric_state:
  assumes "subscript (heap s) event ''RequestType'' = Inr rt"
    and "subscript (heap s) event ''ResourceProperties'' = Inr (VRef a)"
    and "subscript (heap s) (VRef a) ''Resource'' = Inr (VStr ''AnonymousMetric'')"
  shows "heap (snd (custom_resource ext event s)) =
      heap s @ [setitem ''RequestType'' rt
        (dict_pop ''UUID'' (dict_pop ''SolutionId'' (dict_pop ''Resource''
            (dict_pop ''ServiceToken'' (heap s ! a)))))]"
    and "helper_Data (snd (custom_resource ext event s)) = helper_Data s"
proof -
  from assms(3) have a: "a < length (heap s)"
    by (auto elim: subscript_Inr_D)
  let ?m = "send_metrics ext rt (VRef a) s"
  have "heap (snd (custom_resource ext event s)) = heap (snd ?m)"
    and "helper_Data (snd (custom_resource ext event s)) = helper_Data (snd ?m)"
    unfolding custom_resource_anonymous_metric [OF assms]
    by (simp_all split: prod.splits option.splits)
  with send_metrics_state [OF a, of ext rt]
  show "heap (snd (custom_resource ext event s)) =
      heap s @ [setitem ''RequestType'' rt
        (dict_pop ''UUID'' (dict_pop ''SolutionId'' (dict_pop ''Resource''
            (dict_pop ''ServiceToken'' (heap s ! a)))))]"
    and "helper_Data (snd (custom_resource ext event s)) = helper_Data s"
    by simp_all
qed

lemma map_of_dict_pop: "map_of (dict_pop k d) k' = (if k' = k then None else map_of d k')"
  by (simp add: dict_pop_def delete_conv')

text \<open>
  Claim C8. Given a dictionary, \<open>_sanitize_data\<close> never raises and returns the same
  dictionary object (the same address), in which the keys \<open>ServiceToken\<close>,
  \<open>Resource\<close>, \<open>SolutionId\<close> and \<open>UUID\<close> are absent and every other key has the
  value it had before; no other object of the store changes.
\<close>

theorem sanitize_data_removes_four_keys:
  assumes "a < length h"
  shows "\<exists>h'. sanitize_data h (VRef a) = Inr (h', VRef a)
     \<and> length h' = length h
     \<and> (\<forall>b < length h. b \<noteq> a \<longrightarrow> h' ! b = h ! b)
     \<and> (\<forall>k. map_of (h' ! a) k =
           (if k \<in> {''ServiceToken'', ''Resource'', ''SolutionId'', ''UUID''} then None
            else map_of (h ! a) k))"
  using assms
  by (simp add: sanitize_data_dict map_of_dict_pop)

theorem sanitize_data_removes_four_keys_witness:
  "(0::nat) < length [[(''ServiceToken'', VStr ''arn''), (''Version'', VStr ''v1.3.0'')]]
   \<and> (\<exists>h'. sanitize_data [[(''ServiceToken'', VStr ''arn''), (''Version'', VStr ''v1.3.0'')]]
              (VRef 0) = Inr (h', VRef 0)
         \<and> map_of (h' ! 0) ''ServiceToken'' = None
         \<and> map_of (h' ! 0) ''Version'' = Some (VStr ''v1.3.0''))
   \<and> (0::nat) < length [[(''Version'', VStr ''v1.3.0'')]]
   \<and> (\<exists>h'. sanitize_data [[(''Version'', VStr ''v1.3.0'')]] (VRef 0) = Inr (h', VRef 0)
         \<and> map_of (h' ! 0) ''Version'' = Some (VStr ''v1.3.0''))"
proof -
  have h1: "(0::nat) < length [[(''ServiceToken'', VStr ''arn''), (''Version'', VStr ''v1.3.0'')]]"
    by simp
  have h2: "(0::nat) < length [[(''Version'', VStr ''v1.3.0'')]]"
    by simp
  from sanitize_data_removes_four_keys [OF h1]
  obtain h' where "sanitize_data [[(''ServiceToken'', VStr ''arn''), (''Version'', VStr ''v1.3.0'')]]
        (VRef 0) = Inr (h', VRef 0)"
    and "\<forall>k. map_of (h' ! 0) k =
           (if k \<in> {''ServiceToken'', ''Resource'', ''SolutionId'', ''UUID''} then None
            else map_of ([[(''ServiceToken'', VStr ''arn''), (''Version'', VStr ''v1.3.0'')]] ! 0) k)"
    by (elim exE conjE)
  then have 1: "\<exists>h'. sanitize_data [[(''ServiceToken'', VStr ''arn''), (''Version'', VStr ''v1.3.0'')]]
              (VRef 0) = Inr (h', VRef 0)
         \<and> map_of (h' ! 0) ''ServiceToken'' = None
         \<and> map_of (h' ! 0) ''Version'' = Some (VStr ''v1.3.0'')"
    by (intro exI [of _ h']) simp
  from sanitize_data_removes_four_keys [OF h2]
  obtain h'' where "sanitize_data [[(''Version'', VStr ''v1.3.0'')]] (VRef 0) = Inr (h'', VRef 0)"
    and "\<forall>k. map_of (h'' ! 0) k =
           (if k \<in> {''ServiceToken'', ''Resource'', ''SolutionId'', ''UUID''} then None
            else map_of ([[(''Version'', VStr ''v1.3.0'')]] ! 0) k)"
    by (elim exE conjE)
  then have 2: "\<exists>h'. sanitize_data [[(''Version'', VStr ''v1.3.0'')]] (VRef 0) = Inr (h', VRef 0)
         \<and> map_of (h' ! 0) ''Version'' = Some (VStr ''v1.3.0'')"
    by (intro exI [of _ h'']) simp
  from h1 h2 1 2 show ?thesis by (intro conjI)
qed

text \<open>
  Claim C7. For every event whose \<open>ResourceProperties\<close> dictionary has \<open>Resource\<close>
  "AnonymousMetric", the handler leaves every object that existed before the call
  as it was: in particular the event and its \<open>ResourceProperties\<close> dictionary keep
  every key and value (\<open>ServiceToken\<close>, \<open>Resource\<close>, \<open>SolutionId\<close> and \<open>UUID\<close>
  included). Sanitization and the \<open>RequestType\<close> entry go to one new object, the
  shallow copy; and the module-level \<open>helper.Data\<close> is left unchanged, so the
  invocation leaves no data of the request in state shared with a later request.
\<close>

theorem custom_resource_anonymous_metric_frame:
  assumes "subscript (heap s) event ''ResourceProperties'' = Inr (VRef a)"
    and "subscript (heap s) (VRef a) ''Resource'' = Inr (VStr ''AnonymousMetric'')"
  shows "length (heap s) \<le> length (heap (snd (custom_resource ext event s)))
     \<and> (\<forall>b < length (heap s). heap (snd (custom_resource ext event s)) ! b = heap s ! b)
     \<and> helper_Data (snd (custom_resource ext event s)) = helper_Data s
     \<and> (\<forall>rt. subscript (heap s) event ''RequestType'' = Inr rt \<longrightarrow>
           heap (snd (custom_resource ext event s)) =
             heap s @ [setitem ''RequestType'' rt
               (dict_pop ''UUID'' (dict_pop ''SolutionId'' (dict_pop ''Resource''
                  (dict_pop ''ServiceToken'' (heap s ! a)))))])"
proof (cases "subscript (heap s) event ''RequestType''")
  case (Inl e)
  then show ?thesis by (simp add: custom_resource_def)
next
  case (Inr rt)
  from custom_resource_anonymous_metric_state [OF Inr assms, of ext] Inr
  show ?thesis by (simp add: nth_append)
qed

theorem custom_resource_anonymous_metric_frame_witness:
  "subscript (heap (example_helper_state ''Create'' ''AnonymousMetric'')) (VRef 0)
       ''ResourceProperties'' = Inr (VRef 1)
   \<and> subscript (heap (example_helper_state ''Create'' ''AnonymousMetric'')) (VRef 1)
       ''Resource'' = Inr (VStr ''AnonymousMetric'')
   \<and> heap (snd (custom_resource example_externals (VRef 0)
         (example_helper_state ''Create'' ''AnonymousMetric''))) ! 1 =
       heap (example_helper_state ''Create'' ''AnonymousMetric'') ! 1
   \<and> heap (snd (custom_resource example_externals (VRef 0)
         (example_helper_state ''Create'' ''AnonymousMetric''))) ! 2 =
       [(''gitSelected'', VStr []),
        (''bucketSelected'', VStr ''my-bucket''),
        (''Version'', VStr ''v1.3.0''),
        (''RequestType'', VStr ''Create'')]
   \<and> helper_Data (snd (custom_resource example_externals (VRef 0)
         (example_helper_state ''Create'' ''AnonymousMetric''))) = []"
proof -
  let ?s = "example_helper_state ''Create'' ''AnonymousMetric''"
  note f = custom_resource_anonymous_metric_frame
    [where s = ?s and event = "VRef 0" and a = 1 and ext = example_externals,
      OF example_helper_state_reads(2) example_helper_state_reads(3)]
  have l: "(1::nat) < length (heap ?s)"
    by (simp add: example_helper_state_def)
  from f have "\<forall>b < length (heap ?s).
      heap (snd (custom_resource example_externals (VRef 0) ?s)) ! b = heap ?s ! b"
    by (elim conjE)
  with l have 1: "heap (snd (custom_resource example_externals (VRef 0) ?s)) ! 1 = heap ?s ! 1"
    by blast
  from f example_helper_state_reads(1) [of "''Create''" "''AnonymousMetric''"]
  have "heap (snd (custom_resource example_externals (VRef 0) ?s)) =
      heap ?s @ [setitem ''RequestType'' (VStr ''Create'')
               (dict_pop ''UUID'' (dict_pop ''SolutionId'' (dict_pop ''Resource''
                  (dict_pop ''ServiceToken'' (heap ?s ! 1)))))]"
    by blast
  then have 2: "heap (snd (custom_resource example_externals (VRef 0) ?s)) ! 2 =
       [(''gitSelected'', VStr []),
        (''bucketSelected'', VStr ''my-bucket''),
        (''Version'', VStr ''v1.3.0''),
        (''RequestType'', VStr ''Create'')]"
    by (simp add: example_helper_state_def dict_pop_def setitem_def)
  from f have 3: "helper_Data (snd (custom_resource example_externals (VRef 0) ?s)) = []"
    by (simp add: example_helper_state_def)
  from 1 2 3 example_helper_state_reads [of "''Create''" "''AnonymousMetric''"]
  show ?thesis by simp
qed

text \<open>
  Claim C9. For every event with a \<open>RequestType\<close> whose \<open>ResourceProperties\<close> has
  \<open>Resource\<close> "AnonymousMetric", the handler returns normally whatever the
  outcome of building and posting the payload: an exception raised inside the
  \<open>try\<close> block is not propagated, and the handler's last action is to log it, as
  "could not send" for a request exception and as "unknown error" for any other.
\<close>

theorem custom_resource_catches_exceptions:
  assumes "subscript (heap s) event ''RequestType'' = Inr rt"
    and "subscript (heap s) event ''ResourceProperties'' = Inr rp"
    and "subscript (heap s) rp ''Resource'' = Inr (VStr ''AnonymousMetric'')"
  shows "fst (custom_resource ext event s) = Inr ()
     \<and> (\<forall>e s'. send_metrics ext rt rp s = (Some e, s') \<longrightarrow>
           snd (custom_resource ext event s) =
             s'\<lparr>log_records := log_records s' @
               [case e of RequestException m \<Rightarrow> Exception_could_not_send e
                        | _ \<Rightarrow> Exception_unknown_error e]\<rparr>)"
  unfolding custom_resource_anonymous_metric [OF assms]
  by (simp split: prod.splits option.splits)

theorem custom_resource_catches_exceptions_witness:
  "subscript (heap (example_helper_state ''Update'' ''AnonymousMetric'')) (VRef 0)
       ''RequestType'' = Inr (VStr ''Update'')
   \<and> subscript (heap (example_helper_state ''Update'' ''AnonymousMetric'')) (VRef 0)
       ''ResourceProperties'' = Inr (VRef 1)
   \<and> subscript (heap (example_helper_state ''Update'' ''AnonymousMetric'')) (VRef 1)
       ''Resource'' = Inr (VStr ''AnonymousMetric'')
   \<and> fst (send_metrics example_externals (VStr ''Update'') (VRef 1)
         (example_helper_state ''Update'' ''AnonymousMetric''))
       = Some (RequestException ''ConnectionError'')
   \<and> fst (custom_resource example_externals (VRef 0)
         (example_helper_state ''Update'' ''AnonymousMetric'')) = Inr ()
   \<and> last (log_records (snd (custom_resource example_externals (VRef 0)
         (example_helper_state ''Update'' ''AnonymousMetric''))))
       = Exception_could_not_send (RequestException ''ConnectionError'')"
proof -
  let ?s = "example_helper_state ''Update'' ''AnonymousMetric''"
  note c = custom_resource_catches_exceptions
    [where s = ?s and event = "VRef 0" and rt = "VStr ''Update''" and rp = "VRef 1"
       and ext = example_externals,
      OF example_helper_state_reads]
  have m: "fst (send_metrics example_externals (VStr ''Update'') (VRef 1) ?s)
      = Some (RequestException ''ConnectionError'')"
    by (simp add: send_metrics_def example_helper_state_def example_externals_def copy_def
        sanitize_data_def dict_pop_def store_item_def setitem_def subscript_def py_len_def
        bind_err_def Let_def)
  then obtain s' where s': "send_metrics example_externals (VStr ''Update'') (VRef 1) ?s
      = (Some (RequestException ''ConnectionError''), s')"
    by (cases "send_metrics example_externals (VStr ''Update'') (VRef 1) ?s") simp
  with c have "snd (custom_resource example_externals (VRef 0) ?s) =
      s'\<lparr>log_records := log_records s' @
        [Exception_could_not_send (RequestException ''ConnectionError'')]\<rparr>"
    by simp
  then have "last (log_records (snd (custom_resource example_externals (VRef 0) ?s)))
      = Exception_could_not_send (RequestException ''ConnectionError'')"
    by simp
  with c m example_helper_state_reads [of "''Update''" "''AnonymousMetric''"]
  show ?thesis by simp
qed

text \<open>
  Claim C10. For an event with \<open>RequestType\<close> and \<open>ResourceProperties.Resource\<close>:
  when the resource is "UUID" and the request type is "Create", the handler
  returns after storing the fresh UUID under "UUID" in \<open>helper.Data\<close> and doing
  nothing else; in every other case \<open>helper.Data\<close> is left as it was; and when, in
  addition, the resource is not "AnonymousMetric" (so also for Update and Delete
  of "UUID"), the handler returns with the whole state unchanged.
\<close>

theorem custom_resource_uuid:
  assumes "subscript (heap s) event ''RequestType'' = Inr rt"
    and "subscript (heap s) event ''ResourceProperties'' = Inr rp"
    and "subscript (heap s) rp ''Resource'' = Inr res"
  shows "(res = VStr ''UUID'' \<and> rt = VStr ''Create'' \<longrightarrow>
            custom_resource ext event s =
              (Inr (), s\<lparr>helper_Data := setitem ''UUID'' (VStr (uuid4 ext)) (helper_Data s)\<rparr>))
     \<and> (\<not> (res = VStr ''UUID'' \<and> rt = VStr ''Create'') \<longrightarrow>
            helper_Data (snd (custom_resource ext event s)) = helper_Data s)
     \<and> (\<not> (res = VStr ''UUID'' \<and> rt = VStr ''Create'') \<and> res \<noteq> VStr ''AnonymousMetric'' \<longrightarrow>
            custom_resource ext event s = (Inr (), s))"
proof (intro conjI impI)
  assume "res = VStr ''UUID'' \<and> rt = VStr ''Create''"
  with assms show "custom_resource ext event s =
      (Inr (), s\<lparr>helper_Data := setitem ''UUID'' (VStr (uuid4 ext)) (helper_Data s)\<rparr>)"
    by (simp add: custom_resource_def dict_update_def)
next
  assume n: "\<not> (res = VStr ''UUID'' \<and> rt = VStr ''Create'') \<and> res \<noteq> VStr ''AnonymousMetric''"
  with assms show "custom_resource ext event s = (Inr (), s)"
    by (auto simp add: custom_resource_def)
next
  assume n: "\<not> (res = VStr ''UUID'' \<and> rt = VStr ''Create'')"
  show "helper_Data (snd (custom_resource ext event s)) = helper_Data s"
  proof (cases "res = VStr ''AnonymousMetric''")
    case True
    from assms(3) obtain a where rp: "rp = VRef a"
      by (auto elim: subscript_Inr_D)
    from assms True rp show ?thesis
      by (simp add: custom_resource_anonymous_metric_state(2))
  next
    case False
    with assms n show ?thesis by (auto simp add: custom_resource_def)
  qed
qed

theorem custom_resource_uuid_witness:
  "subscript (heap (example_helper_state ''Create'' ''UUID'')) (VRef 0) ''RequestType''
       = Inr (VStr ''Create'')
   \<and> subscript (heap (example_helper_state ''Create'' ''UUID'')) (VRef 0) ''ResourceProperties''
       = Inr (VRef 1)
   \<and> subscript (heap (example_helper_state ''Create'' ''UUID'')) (VRef 1) ''Resource''
       = Inr (VStr ''UUID'')
   \<and> custom_resource example_externals (VRef 0) (example_helper_state ''Create'' ''UUID'') =
       (Inr (), (example_helper_state ''Create'' ''UUID'')
          \<lparr>helper_Data := [(''UUID'', VStr ''16fd2706-8baf-433b-82eb-8c7fada847da'')]\<rparr>)
   \<and> custom_resource example_externals (VRef 0) (example_helper_state ''Delete'' ''UUID'') =
       (Inr (), example_helper_state ''Delete'' ''UUID'')
   \<and> custom_resource example_externals (VRef 0) (example_helper_state ''Create'' ''Other'') =
       (Inr (), example_helper_state ''Create'' ''Other'')
   \<and> helper_Data (snd (custom_resource example_externals (VRef 0)
         (example_helper_state ''Create'' ''AnonymousMetric''))) = []"
proof -
  note r = example_helper_state_reads
  have d: "helper_Data (example_helper_state rt res) = []" for rt res
    by (simp add: example_helper_state_def)
  have 1: "custom_resource example_externals (VRef 0) (example_helper_state ''Create'' ''UUID'') =
       (Inr (), (example_helper_state ''Create'' ''UUID'')
          \<lparr>helper_Data := [(''UUID'', VStr ''16fd2706-8baf-433b-82eb-8c7fada847da'')]\<rparr>)"
    using custom_resource_uuid
        [where s = "example_helper_state ''Create'' ''UUID''" and event = "VRef 0"
           and rt = "VStr ''Create''" and rp = "VRef 1" and res = "VStr ''UUID''"
           and ext = example_externals, OF r]
    by (simp add: d setitem_def example_externals_def)
  have 2: "custom_resource example_externals (VRef 0) (example_helper_state ''Delete'' ''UUID'') =
       (Inr (), example_helper_state ''Delete'' ''UUID'')"
    using custom_resource_uuid
        [where s = "example_helper_state ''Delete'' ''UUID''" and event = "VRef 0"
           and rt = "VStr ''Delete''" and rp = "VRef 1" and res = "VStr ''UUID''"
           and ext = example_externals, OF r] by simp
  have 3: "custom_resource example_externals (VRef 0) (example_helper_state ''Create'' ''Other'') =
       (Inr (), example_helper_state ''Create'' ''Other'')"
    using custom_resource_uuid
        [where s = "example_helper_state ''Create'' ''Other''" and event = "VRef 0"
           and rt = "VStr ''Create''" and rp = "VRef 1" and res = "VStr ''Other''"
           and ext = example_externals, OF r] by simp
  have 4: "helper_Data (snd (custom_resource example_externals (VRef 0)
         (example_helper_state ''Create'' ''AnonymousMetric''))) = []"
    using custom_resource_uuid
        [where s = "example_helper_state ''Create'' ''AnonymousMetric''" and event = "VRef 0"
           and rt = "VStr ''Create''" and rp = "VRef 1" and res = "VStr ''AnonymousMetric''"
           and ext = example_externals, OF r] by (simp add: d)
  from 1 2 3 4 example_helper_state_reads [of "''Create''" "''UUID''"]
  show ?thesis by simp
qed

section \<open>Properties of the inference Lambda\<close>

text \<open>
  Claim C1, as amended. For every event whose body JSON-decodes to a dictionary
  with the keys "payload" and "ContentType", when \<open>ENDPOINT_NAME\<close> is set the
  handler calls \<open>invoke_endpoint\<close> exactly once, with \<open>EndpointName\<close> from
  \<open>ENDPOINT_NAME\<close>, \<open>Body\<close> the "payload" value and \<open>ContentType\<close> the
  "ContentType" value. When that call returns a response whose body decodes, the
  handler returns status code 200, \<open>isBase64Encoded\<close> false, the decoded body and
  the header \<open>Content-Type: plain/text\<close>; when the call or the decoding raises, the
  handler raises that exception to its decorator.
\<close>

theorem handler_invokes_endpoint_once:
  assumes "getitem event ''body'' = Inr (JStr s)"
    and "json_loads lib s = Inr (JDict kvs)"
    and "map_of kvs ''payload'' = Some p"
    and "map_of kvs ''ContentType'' = Some c"
    and "env ''ENDPOINT_NAME'' = Some n"
  shows "snd (handler lib env client event) = [\<lparr>EndpointName = n, Body = p, ContentType = c\<rparr>]
     \<and> (\<forall>response predictions.
           client \<lparr>EndpointName = n, Body = p, ContentType = c\<rparr> = Inr response
           \<and> bytes_decode lib (Body_read response) = Inr predictions \<longrightarrow>
           fst (handler lib env client event) =
             Inr \<lparr>statusCode = 200, isBase64Encoded = False, body = predictions,
                  headers = [(''Content-Type'', ''plain/text'')]\<rparr>)
     \<and> (\<forall>e. client \<lparr>EndpointName = n, Body = p, ContentType = c\<rparr> = Inl e \<longrightarrow>
           fst (handler lib env client event) = Inl e)
     \<and> (\<forall>response e.
           client \<lparr>EndpointName = n, Body = p, ContentType = c\<rparr> = Inr response
           \<and> bytes_decode lib (Body_read response) = Inl e \<longrightarrow>
           fst (handler lib env client event) = Inl e)"
  using assms
  by (simp add: handler_def invoke_def bind_err_def environ_get_def Let_def
      split: sum.splits)

theorem handler_invokes_endpoint_once_witness:
  "getitem example_event ''body'' = Inr (JStr example_body)
   \<and> json_loads example_lib example_body =
        Inr (JDict [(''payload'', JStr ''1,2,3''), (''ContentType'', JStr ''text/csv'')])
   \<and> example_environ ''ENDPOINT_NAME'' = Some ''my-endpoint''
   \<and> handler example_lib example_environ answering_client example_event =
       (Inr \<lparr>statusCode = 200, isBase64Encoded = False, body = ''0.9'',
             headers = [(''Content-Type'', ''plain/text'')]\<rparr>,
        [\<lparr>EndpointName = ''my-endpoint'', Body = JStr ''1,2,3'',
          ContentType = JStr ''text/csv''\<rparr>])"
proof -
  have h1: "getitem example_event ''body'' = Inr (JStr example_body)"
    by (simp add: example_event_def)
  have h2: "json_loads example_lib example_body =
        Inr (JDict [(''payload'', JStr ''1,2,3''), (''ContentType'', JStr ''text/csv'')])"
    by (simp add: example_lib_def)
  have h3: "map_of [(''payload'', JStr ''1,2,3''), (''ContentType'', JStr ''text/csv'')] ''payload''
      = Some (JStr ''1,2,3'')"
    by simp
  have h4: "map_of [(''payload'', JStr ''1,2,3''), (''ContentType'', JStr ''text/csv'')] ''ContentType''
      = Some (JStr ''text/csv'')"
    by simp
  have h5: "example_environ ''ENDPOINT_NAME'' = Some ''my-endpoint''"
    by (simp add: example_environ_def)
  have d: "bytes_decode example_lib (Body_read \<lparr>Body_read = [0x30, 0x2E, 0x39]\<rparr>) = Inr ''0.9''"
    by (simp add: example_lib_def)
  from handler_invokes_endpoint_once
      [where event = example_event and s = example_body and lib = example_lib
         and kvs = "[(''payload'', JStr ''1,2,3''), (''ContentType'', JStr ''text/csv'')]"
         and p = "JStr ''1,2,3''" and c = "JStr ''text/csv''"
         and env = example_environ and n = "''my-endpoint''" and client = answering_client]
    h1 h2 h3 h4 h5 d
  have "handler example_lib example_environ answering_client example_event =
       (Inr \<lparr>statusCode = 200, isBase64Encoded = False, body = ''0.9'',
             headers = [(''Content-Type'', ''plain/text'')]\<rparr>,
        [\<lparr>EndpointName = ''my-endpoint'', Body = JStr ''1,2,3'',
          ContentType = JStr ''text/csv''\<rparr>])"
    by (simp add: answering_client_def prod_eq_iff)
  with h1 h2 h5 show ?thesis by simp
qed

text \<open>
  Claim C1 as stated fails when the endpoint call raises: the body decodes to a
  dictionary with both keys and \<open>invoke_endpoint\<close> is called once, but the handler
  function raises the client's error instead of returning the status-200 response.
\<close>

theorem handler_failing_endpoint_counterexample:
  "getitem example_event ''body'' = Inr (JStr example_body)
   \<and> json_loads example_lib example_body =
        Inr (JDict [(''payload'', JStr ''1,2,3''), (''ContentType'', JStr ''text/csv'')])
   \<and> handler example_lib example_environ failing_client example_event =
       (Inl (ClientError ''ValidationError''),
        [\<lparr>EndpointName = ''my-endpoint'', Body = JStr ''1,2,3'',
          ContentType = JStr ''text/csv''\<rparr>])"
  by (simp add: handler_def invoke_def bind_err_def environ_get_def example_event_def
      example_lib_def example_environ_def failing_client_def example_body_def)

end
